theory Spec2Isabelle
  imports Main "HOL-Library.Word" "HOL-Library.Char_ord" "HOL-Library.List_Lexorder" "HOL-Library.AList"
begin

unbundle bit_operations_syntax

section \<open>The environment of the file explorer\<close>

text \<open>
  \<^verbatim>\<open>main.py\<close> is one class, \<^verbatim>\<open>PlatformFileExplorer\<close>, whose methods read and change
  the file system through \<^verbatim>\<open>os\<close>, \<^verbatim>\<open>os.path\<close> and \<^verbatim>\<open>open\<close>, write JSON lines to standard
  output and keep their state in the object and in its widgets. The methods are
  embedded as functions on a record of that state. What they call in the Python
  library and in the operating system is modelled first.
\<close>

subsection \<open>Bytes, paths and exceptions\<close>

type_synonym byte = "8 word"
type_synonym path = string
type_synonym loc = "string list"

datatype errno = ENOENT | ENOTDIR | EACCES | EISDIR | ENOTEMPTY | EBUSY | ENXIO | ELOOP

text \<open>
  An exception value. The handlers send \<^verbatim>\<open>str(e)\<close> of a caught exception; the model keeps
  the exception itself in its place, so that the message is the one of the failure
  that was raised, whatever its wording.
\<close>

datatype py_exn =
    OSError errno path
  | ValueError
  | TypeError
  | BinasciiError
  | UnicodeDecodeError
  | AttributeError

subsection \<open>\<^verbatim>\<open>os.path\<close>: the string functions (posixpath)\<close>

definition sep :: char where
  "sep = CHR ''/''"

text \<open>\<^verbatim>\<open>os.path.join(a, b)\<close> with two arguments.\<close>

definition os_path_join :: "path \<Rightarrow> path \<Rightarrow> path" where
  "os_path_join a b =
     (if b \<noteq> [] \<and> hd b = sep then b
      else if a = [] \<or> last a = sep then a @ b
      else a @ [sep] @ b)"

text \<open>\<^verbatim>\<open>p[:p.rfind('/') + 1]\<close> and \<^verbatim>\<open>p[p.rfind('/') + 1:]\<close>.\<close>

definition head_part :: "path \<Rightarrow> path" where
  "head_part p = rev (dropWhile (\<lambda>c. c \<noteq> sep) (rev p))"

definition os_path_basename :: "path \<Rightarrow> path" where
  "os_path_basename p = rev (takeWhile (\<lambda>c. c \<noteq> sep) (rev p))"

text \<open>
  \<^verbatim>\<open>os.path.dirname\<close>: the head, with its trailing slashes stripped unless it consists
  of slashes only.
\<close>

definition os_path_dirname :: "path \<Rightarrow> path" where
  "os_path_dirname p =
     (let head = head_part p in
      if head \<noteq> [] \<and> \<not> list_all (\<lambda>c. c = sep) head
      then rev (dropWhile (\<lambda>c. c = sep) (rev head))
      else head)"

text \<open>
  \<^verbatim>\<open>os.path.splitext(p)[1]\<close>: the text from the last dot of the last component on,
  unless that component's dots are all leading ones.
\<close>

definition splitext_ext :: "path \<Rightarrow> string" where
  "splitext_ext p =
     (let base = os_path_basename p;
          before_dot = rev (tl (dropWhile (\<lambda>c. c \<noteq> CHR ''.'') (rev base)));
          from_dot = CHR ''.'' # rev (takeWhile (\<lambda>c. c \<noteq> CHR ''.'') (rev base))
      in if CHR ''.'' \<in> set base \<and> \<not> list_all (\<lambda>c. c = CHR ''.'') before_dot
         then from_dot
         else [])"

text \<open>\<^verbatim>\<open>str.lower\<close> on the ASCII letters.\<close>

definition lower_char :: "char \<Rightarrow> char" where
  "lower_char c =
     (if CHR ''A'' \<le> c \<and> c \<le> CHR ''Z'' then char_of (of_char c + (32::nat)) else c)"

definition lower :: "string \<Rightarrow> string" where
  "lower s = map lower_char s"

text \<open>\<^verbatim>\<open>str.split('/')\<close>: the components of a path, empty ones included.\<close>

fun split_on :: "char \<Rightarrow> string \<Rightarrow> string list" where
  "split_on c [] = [[]]"
| "split_on c (x # xs) =
     (if x = c then [] # split_on c xs
      else (case split_on c xs of
              [] \<Rightarrow> [[x]]
            | y # ys \<Rightarrow> (x # y) # ys))"

subsection \<open>The file system\<close>

text \<open>
  A file system is a tree. A regular file has its read and write permission and its
  content; a directory its read, write and search permission and its entries by name.
  \<open>Socket\<close> stands for a file that is neither regular nor a directory (a socket, a
  FIFO, a device): \<^verbatim>\<open>stat\<close> succeeds on it, \<^verbatim>\<open>isfile\<close> and \<^verbatim>\<open>isdir\<close> are false.
  \<open>SymLoop\<close> is a symbolic link that cannot be followed (it points to itself):
  it is listed by its directory and \<^verbatim>\<open>stat\<close> fails on it. Other symbolic links,
  owners, quotas and name length limits are not modelled. Where the system refuses an
  operation the model refuses it too; in a corner case (a trailing slash after a
  missing name) the error number may be another one.
\<close>

datatype node =
    File bool bool "byte list"
  | Dir bool bool bool "(string \<times> node) list"
  | Socket
  | SymLoop

record filesys =
  root :: node
  cwd :: loc

fun get_node :: "node \<Rightarrow> loc \<Rightarrow> node option" where
  "get_node n [] = Some n"
| "get_node (Dir r w x ch) (k # ks) =
     (case map_of ch k of None \<Rightarrow> None | Some c \<Rightarrow> get_node c ks)"
| "get_node _ (k # ks) = None"

text \<open>
  \<open>put_node n l v\<close> sets (\<open>Some\<close>) or removes (\<open>None\<close>) the entry at the location
  \<open>l\<close> below \<open>n\<close>; the parent of \<open>l\<close> must be a directory, otherwise nothing changes.
\<close>

fun put_node :: "node \<Rightarrow> loc \<Rightarrow> node option \<Rightarrow> node" where
  "put_node n [] v = n"
| "put_node (Dir r w x ch) [k] v =
     Dir r w x (case v of Some m \<Rightarrow> AList.update k m ch | None \<Rightarrow> AList.delete k ch)"
| "put_node (Dir r w x ch) (k # ks) v =
     (case map_of ch k of
        None \<Rightarrow> Dir r w x ch
      | Some c \<Rightarrow> Dir r w x (AList.update k (put_node c ks v) ch))"
| "put_node n (k # ks) v = n"

text \<open>
  Path resolution: every component is looked up in a directory that can be searched;
  empty components and \<^verbatim>\<open>.\<close> stay, \<^verbatim>\<open>..\<close> goes up (the root is its own parent).
  The result is the location of the last component, which need not exist.
\<close>

fun walk :: "node \<Rightarrow> loc \<Rightarrow> string list \<Rightarrow> errno + loc" where
  "walk rt l [] = Inr l"
| "walk rt l (c # cs) =
     (case get_node rt l of
        None \<Rightarrow> Inl ENOENT
      | Some (Dir r w x ch) \<Rightarrow>
          if \<not> x then Inl EACCES
          else if c = [] \<or> c = ''.'' then walk rt l cs
          else if c = ''..'' then walk rt (butlast l) cs
          else walk rt (l @ [c]) cs
      | Some SymLoop \<Rightarrow> Inl ELOOP
      | Some _ \<Rightarrow> Inl ENOTDIR)"

text \<open>
  A path with an embedded null character is refused by Python with \<^verbatim>\<open>ValueError\<close>
  before the system is asked; the empty path does not exist.
\<close>

definition resolve :: "filesys \<Rightarrow> path \<Rightarrow> py_exn + loc" where
  "resolve fs p =
     (if CHR 0x00 \<in> set p then Inl ValueError
      else if p = [] then Inl (OSError ENOENT p)
      else (case walk (root fs) (if hd p = sep then [] else cwd fs) (split_on sep p) of
              Inl e \<Rightarrow> Inl (OSError e p)
            | Inr l \<Rightarrow> Inr l))"

text \<open>\<^verbatim>\<open>os.stat\<close>; the result stands for the node's \<^verbatim>\<open>stat_result\<close>.\<close>

definition os_stat :: "filesys \<Rightarrow> path \<Rightarrow> py_exn + node" where
  "os_stat fs p =
     (case resolve fs p of
        Inl e \<Rightarrow> Inl e
      | Inr l \<Rightarrow>
          (case get_node (root fs) l of
             None \<Rightarrow> Inl (OSError ENOENT p)
           | Some SymLoop \<Rightarrow> Inl (OSError ELOOP p)
           | Some n \<Rightarrow> Inr n))"

fun st_size :: "node \<Rightarrow> nat" where
  "st_size (File r w c) = length c"
| "st_size _ = 0"

text \<open>\<^verbatim>\<open>os.path.isdir\<close> and \<^verbatim>\<open>os.path.isfile\<close>: false when \<^verbatim>\<open>stat\<close> raises.\<close>

definition os_path_isdir :: "filesys \<Rightarrow> path \<Rightarrow> bool" where
  "os_path_isdir fs p = (case os_stat fs p of Inr (Dir r w x ch) \<Rightarrow> True | _ \<Rightarrow> False)"

definition os_path_isfile :: "filesys \<Rightarrow> path \<Rightarrow> bool" where
  "os_path_isfile fs p = (case os_stat fs p of Inr (File r w c) \<Rightarrow> True | _ \<Rightarrow> False)"

text \<open>\<^verbatim>\<open>os.listdir\<close>: the names in a directory that can be read, in the directory's order.\<close>

definition os_listdir :: "filesys \<Rightarrow> path \<Rightarrow> py_exn + string list" where
  "os_listdir fs p =
     (case resolve fs p of
        Inl e \<Rightarrow> Inl e
      | Inr l \<Rightarrow>
          (case get_node (root fs) l of
             None \<Rightarrow> Inl (OSError ENOENT p)
           | Some (Dir r w x ch) \<Rightarrow>
               if r then Inr (remdups (map fst ch)) else Inl (OSError EACCES p)
           | Some SymLoop \<Rightarrow> Inl (OSError ELOOP p)
           | Some _ \<Rightarrow> Inl (OSError ENOTDIR p)))"

text \<open>Whether entries may be created in or removed from the directory holding \<open>l\<close>.\<close>

definition parent_writable :: "filesys \<Rightarrow> loc \<Rightarrow> bool" where
  "parent_writable fs l =
     (l \<noteq> [] \<and>
      (case get_node (root fs) (butlast l) of
         Some (Dir r w x ch) \<Rightarrow> w \<and> x
       | _ \<Rightarrow> False))"

text \<open>
  \<^verbatim>\<open>open(p, 'wb')\<close>: an existing regular file is truncated, a missing one is created
  (readable and writable). The handle is the location of the file.
\<close>

definition open_wb :: "filesys \<Rightarrow> path \<Rightarrow> py_exn + (filesys \<times> loc)" where
  "open_wb fs p =
     (case resolve fs p of
        Inl e \<Rightarrow> Inl e
      | Inr l \<Rightarrow>
          (case get_node (root fs) l of
             Some (File r w c) \<Rightarrow>
               if w then Inr (fs\<lparr>root := put_node (root fs) l (Some (File r w []))\<rparr>, l)
               else Inl (OSError EACCES p)
           | Some (Dir r w x ch) \<Rightarrow> Inl (OSError EISDIR p)
           | Some Socket \<Rightarrow> Inl (OSError ENXIO p)
           | Some SymLoop \<Rightarrow> Inl (OSError ELOOP p)
           | None \<Rightarrow>
               if parent_writable fs l
               then Inr (fs\<lparr>root := put_node (root fs) l (Some (File True True []))\<rparr>, l)
               else if l \<noteq> [] \<and> get_node (root fs) (butlast l) \<noteq> None
               then Inl (OSError EACCES p)
               else Inl (OSError ENOENT p)))"

text \<open>\<^verbatim>\<open>f.write(bs)\<close> on a handle of \<open>open_wb\<close>.\<close>

definition file_write :: "filesys \<Rightarrow> loc \<Rightarrow> byte list \<Rightarrow> filesys" where
  "file_write fs l bs =
     (case get_node (root fs) l of
        Some (File r w c) \<Rightarrow> fs\<lparr>root := put_node (root fs) l (Some (File r w (c @ bs)))\<rparr>
      | _ \<Rightarrow> fs)"

text \<open>\<^verbatim>\<open>open(p, 'rb')\<close> followed by \<^verbatim>\<open>f.read()\<close>: the whole content.\<close>

definition read_rb :: "filesys \<Rightarrow> path \<Rightarrow> py_exn + byte list" where
  "read_rb fs p =
     (case resolve fs p of
        Inl e \<Rightarrow> Inl e
      | Inr l \<Rightarrow>
          (case get_node (root fs) l of
             None \<Rightarrow> Inl (OSError ENOENT p)
           | Some (File r w c) \<Rightarrow> if r then Inr c else Inl (OSError EACCES p)
           | Some (Dir r w x ch) \<Rightarrow> Inl (OSError EISDIR p)
           | Some Socket \<Rightarrow> Inl (OSError ENXIO p)
           | Some SymLoop \<Rightarrow> Inl (OSError ELOOP p)))"

text \<open>\<^verbatim>\<open>os.remove\<close>: unlinks anything but a directory.\<close>

definition os_remove :: "filesys \<Rightarrow> path \<Rightarrow> py_exn + filesys" where
  "os_remove fs p =
     (case resolve fs p of
        Inl e \<Rightarrow> Inl e
      | Inr l \<Rightarrow>
          (case get_node (root fs) l of
             None \<Rightarrow> Inl (OSError ENOENT p)
           | Some (Dir r w x ch) \<Rightarrow> Inl (OSError EISDIR p)
           | Some _ \<Rightarrow>
               if parent_writable fs l
               then Inr (fs\<lparr>root := put_node (root fs) l None\<rparr>)
               else Inl (OSError EACCES p)))"

text \<open>\<^verbatim>\<open>os.rmdir\<close>: removes a directory that has no entries.\<close>

definition os_rmdir :: "filesys \<Rightarrow> path \<Rightarrow> py_exn + filesys" where
  "os_rmdir fs p =
     (case resolve fs p of
        Inl e \<Rightarrow> Inl e
      | Inr l \<Rightarrow>
          (case get_node (root fs) l of
             None \<Rightarrow> Inl (OSError ENOENT p)
           | Some (Dir r w x ch) \<Rightarrow>
               if l = [] then Inl (OSError EBUSY p)
               else if \<not> parent_writable fs l then Inl (OSError EACCES p)
               else if ch \<noteq> [] then Inl (OSError ENOTEMPTY p)
               else Inr (fs\<lparr>root := put_node (root fs) l None\<rparr>)
           | Some _ \<Rightarrow> Inl (OSError ENOTDIR p)))"

subsection \<open>\<^verbatim>\<open>base64\<close>\<close>

text \<open>
  \<^verbatim>\<open>base64.b64encode\<close> is \<^verbatim>\<open>binascii.b2a_base64\<close> without the newline: three bytes
  give four characters of the alphabet, a rest of one or two bytes is padded with
  \<^verbatim>\<open>=\<close>.
\<close>

definition b64_alphabet :: string where
  "b64_alphabet = ''ABCDEFGHIJKLMNOPQRSTUVWXYZabcdefghijklmnopqrstuvwxyz0123456789+/''"

definition table_b2a :: "byte \<Rightarrow> char" where
  "table_b2a s = b64_alphabet ! unat s"

definition table_a2b :: "char \<Rightarrow> byte option" where
  "table_a2b c = map_of (zip b64_alphabet (map of_nat [0..<64])) c"

fun b2a_base64 :: "byte list \<Rightarrow> string" where
  "b2a_base64 [] = []"
| "b2a_base64 [a] =
     [table_b2a (drop_bit 2 a), table_b2a (push_bit 4 (a AND 3)), CHR ''='', CHR ''='']"
| "b2a_base64 [a, b] =
     [table_b2a (drop_bit 2 a), table_b2a (push_bit 4 (a AND 3) OR drop_bit 4 b),
      table_b2a (push_bit 2 (b AND 15)), CHR ''='']"
| "b2a_base64 (a # b # c # rest) =
     [table_b2a (drop_bit 2 a), table_b2a (push_bit 4 (a AND 3) OR drop_bit 4 b),
      table_b2a (push_bit 2 (b AND 15) OR drop_bit 6 c), table_b2a (c AND 63)]
     @ b2a_base64 rest"

text \<open>
  \<^verbatim>\<open>base64.b64decode(s)\<close> with its default \<^verbatim>\<open>validate=False\<close> is
  \<^verbatim>\<open>binascii.a2b_base64\<close> in its lenient mode: characters outside the alphabet are
  skipped, the position \<open>q\<close> in the group of four and the bits left over \<open>lc\<close> are
  carried along, a complete padding ends the input, and an incomplete last group
  raises \<^verbatim>\<open>binascii.Error\<close>.
\<close>

fun a2b_loop :: "string \<Rightarrow> nat \<Rightarrow> byte \<Rightarrow> nat \<Rightarrow> byte list \<Rightarrow> py_exn + byte list" where
  "a2b_loop [] q lc pads acc = (if q \<noteq> 0 then Inl BinasciiError else Inr acc)"
| "a2b_loop (c # cs) q lc pads acc =
     (if c = CHR ''='' then
        (if 2 \<le> q \<and> 4 \<le> q + (pads + 1) then Inr acc
         else a2b_loop cs q lc (if 2 \<le> q then pads + 1 else pads) acc)
      else (case table_a2b c of
              None \<Rightarrow> a2b_loop cs q lc pads acc
            | Some v \<Rightarrow>
                if q = 0 then a2b_loop cs 1 v 0 acc
                else if q = 1 then
                  a2b_loop cs 2 (v AND 15) 0 (acc @ [push_bit 2 lc OR drop_bit 4 v])
                else if q = 2 then
                  a2b_loop cs 3 (v AND 3) 0 (acc @ [push_bit 4 lc OR drop_bit 2 v])
                else a2b_loop cs 0 0 0 (acc @ [push_bit 6 lc OR v])))"

definition a2b_base64 :: "string \<Rightarrow> py_exn + byte list" where
  "a2b_base64 s = a2b_loop s 0 0 0 []"

subsection \<open>Text files\<close>

text \<open>
  The strict UTF-8 decoder of \<^verbatim>\<open>open(p, 'r', encoding='utf-8')\<close>: code points as
  natural numbers, \<open>None\<close> for \<^verbatim>\<open>UnicodeDecodeError\<close> (a stray or missing
  continuation byte, an overlong form, a surrogate, a value beyond U+10FFFF).
\<close>

definition is_cont :: "byte \<Rightarrow> bool" where
  "is_cont b = (0x80 \<le> b \<and> b \<le> 0xBF)"

definition cont_bits :: "byte \<Rightarrow> nat" where
  "cont_bits b = unat b - 0x80"

fun utf8_decode :: "byte list \<Rightarrow> nat list option" where
  "utf8_decode [] = Some []"
| "utf8_decode (b0 # bs) =
     (if b0 < 0x80 then map_option (\<lambda>cs. unat b0 # cs) (utf8_decode bs)
      else if 0xC2 \<le> b0 \<and> b0 \<le> 0xDF then
        (case bs of
           b1 # r \<Rightarrow>
             if is_cont b1
             then map_option (\<lambda>cs. ((unat b0 - 0xC0) * 64 + cont_bits b1) # cs) (utf8_decode r)
             else None
         | _ \<Rightarrow> None)
      else if 0xE0 \<le> b0 \<and> b0 \<le> 0xEF then
        (case bs of
           b1 # b2 # r \<Rightarrow>
             if is_cont b1 \<and> is_cont b2
                \<and> (b0 = 0xE0 \<longrightarrow> 0xA0 \<le> b1) \<and> (b0 = 0xED \<longrightarrow> b1 \<le> 0x9F)
             then map_option
                    (\<lambda>cs. ((unat b0 - 0xE0) * 4096 + cont_bits b1 * 64 + cont_bits b2) # cs)
                    (utf8_decode r)
             else None
         | _ \<Rightarrow> None)
      else if 0xF0 \<le> b0 \<and> b0 \<le> 0xF4 then
        (case bs of
           b1 # b2 # b3 # r \<Rightarrow>
             if is_cont b1 \<and> is_cont b2 \<and> is_cont b3
                \<and> (b0 = 0xF0 \<longrightarrow> 0x90 \<le> b1) \<and> (b0 = 0xF4 \<longrightarrow> b1 \<le> 0x8F)
             then map_option
                    (\<lambda>cs. ((unat b0 - 0xF0) * 262144 + cont_bits b1 * 4096
                            + cont_bits b2 * 64 + cont_bits b3) # cs)
                    (utf8_decode r)
             else None
         | _ \<Rightarrow> None)
      else None)"

text \<open>Text mode translates \<^verbatim>\<open>\r\n\<close> and a lone \<^verbatim>\<open>\r\<close> to \<^verbatim>\<open>\n\<close>.\<close>

fun universal_newlines :: "nat list \<Rightarrow> nat list" where
  "universal_newlines [] = []"
| "universal_newlines [c] = [if c = 13 then 10 else c]"
| "universal_newlines (c # d # cs) =
     (if c = 13 \<and> d = 10 then 10 # universal_newlines cs
      else if c = 13 then 10 # universal_newlines (d # cs)
      else c # universal_newlines (d # cs))"

text \<open>
  \<^verbatim>\<open>open(p, 'r', encoding='utf-8')\<close> followed by \<^verbatim>\<open>f.read(n)\<close>: at most \<open>n\<close>
  characters of the decoded text. The interpreter decodes the file in chunks and
  stops reading once it has \<open>n\<close> characters, so it does not report an invalid
  sequence in a part of the file it never reads; the model decodes the whole file.
  The two agree on every file that is valid UTF-8.
\<close>

definition read_text :: "filesys \<Rightarrow> path \<Rightarrow> nat \<Rightarrow> py_exn + nat list" where
  "read_text fs p n =
     (case read_rb fs p of
        Inl e \<Rightarrow> Inl e
      | Inr bs \<Rightarrow>
          (case utf8_decode bs of
             None \<Rightarrow> Inl UnicodeDecodeError
           | Some cs \<Rightarrow> Inr (take n (universal_newlines cs))))"

subsection \<open>JSON values\<close>

text \<open>
  What \<^verbatim>\<open>json.loads\<close> returns for a line of input. Numbers are the integers; an
  object is the list of its members.
\<close>

datatype json =
    JNull
  | JBool bool
  | JInt int
  | JStr string
  | JArr "json list"
  | JObj "(string \<times> json) list"

text \<open>\<^verbatim>\<open>d.get(k)\<close> on a dictionary: \<^verbatim>\<open>None\<close> when the key is absent.\<close>

definition dict_get :: "(string \<times> json) list \<Rightarrow> string \<Rightarrow> json" where
  "dict_get d k = (case map_of d k of None \<Rightarrow> JNull | Some v \<Rightarrow> v)"

text \<open>The truth value of an object in a condition.\<close>

fun truthy :: "json \<Rightarrow> bool" where
  "truthy JNull = False"
| "truthy (JBool b) = b"
| "truthy (JInt i) = (i \<noteq> 0)"
| "truthy (JStr s) = (s \<noteq> [])"
| "truthy (JArr xs) = (xs \<noteq> [])"
| "truthy (JObj d) = (d \<noteq> [])"

text \<open>
  \<^verbatim>\<open>base64.b64decode\<close> of a JSON value: only a string of ASCII characters is
  decoded.
\<close>

definition b64decode :: "json \<Rightarrow> py_exn + byte list" where
  "b64decode v =
     (case v of
        JStr s \<Rightarrow> if list_all (\<lambda>c. of_char c < (128::nat)) s then a2b_base64 s else Inl ValueError
      | _ \<Rightarrow> Inl TypeError)"

section \<open>The explorer\<close>

subsection \<open>State\<close>

text \<open>
  A row of \<^verbatim>\<open>file_store\<close> is \<^verbatim>\<open>[icon, entry, size, full_path]\<close>. The size column is
  the text \<^verbatim>\<open>format_size(stat.st_size)\<close>, empty for a directory; the model keeps the
  number it is formatted from. The rows are in the order in which \<^verbatim>\<open>load_directory\<close>
  appends them; re-sorting the view by a click on a column header is not modelled.
\<close>

datatype icon = FolderIcon | FileIcon

datatype size_text = NoSize | FormatSize nat

record row =
  row_icon :: icon
  row_name :: string
  row_size :: size_text
  row_path :: path

text \<open>
  The children of \<^verbatim>\<open>preview_box\<close>. \<open>ImagePreview p\<close> is what \<^verbatim>\<open>preview_image(p)\<close>
  packs: the scaled image of the file or the label of its loading error, which is the
  toolkit's business.
\<close>

datatype widget =
    LabelSelectFile
  | LabelNoPreview string
  | LabelErrorText py_exn
  | ImagePreview path
  | TextView "nat list"

text \<open>The JSON objects written to standard output, one per line.\<close>

datatype message =
    State path "path option" "string list"
  | UploadComplete string
  | DownloadData string string
  | DeleteComplete
  | Error py_exn

text \<open>
  What goes to standard error: the diagnostic of \<^verbatim>\<open>load_directory\<close>, and the
  traceback of an exception that leaves a callback (the main loop prints it and
  goes on).
\<close>

datatype diagnostic = ErrorLoadingDirectory py_exn | Traceback py_exn

text \<open>
  The state of the window: the file system it runs on, its attribute
  \<^verbatim>\<open>current_path\<close>, the text of \<^verbatim>\<open>path_entry\<close>, the rows of \<^verbatim>\<open>file_store\<close>, the row
  selected in \<^verbatim>\<open>file_view\<close> (by its index), the children of \<^verbatim>\<open>preview_box\<close>, and
  the two output streams.
\<close>

record world =
  filesystem :: filesys
  current_path :: path
  path_entry :: string
  file_store :: "row list"
  selected_row :: "nat option"
  preview_box :: "widget list"
  stdout :: "message list"
  stderr :: "diagnostic list"

subsection \<open>Messages and state reports\<close>

definition send_message :: "message \<Rightarrow> world \<Rightarrow> world" where
  "send_message msg w = w\<lparr>stdout := stdout w @ [msg]\<rparr>"

text \<open>\<^verbatim>\<open>get_selected_file\<close>: column 3 of the selected row, \<^verbatim>\<open>None\<close> without one.\<close>

definition get_selected_file :: "world \<Rightarrow> path option" where
  "get_selected_file w =
     (case selected_row w of
        None \<Rightarrow> None
      | Some i \<Rightarrow> if i < length (file_store w) then Some (row_path (file_store w ! i)) else None)"

definition get_available_actions :: "filesys \<Rightarrow> path option \<Rightarrow> string list" where
  "get_available_actions fs selected =
     (let actions = [''upload''] in
      (case selected of
         None \<Rightarrow> actions
       | Some p \<Rightarrow>
           if p \<noteq> [] \<and> os_path_isfile fs p then actions @ [''download''] @ [''delete'']
           else if p \<noteq> [] \<and> os_path_isdir fs p then actions @ [''delete'']
           else actions))"

definition state_message :: "world \<Rightarrow> message" where
  "state_message w =
     (let selected = get_selected_file w in
      State (current_path w) selected (get_available_actions (filesystem w) selected))"

definition send_state :: "world \<Rightarrow> world" where
  "send_state w = send_message (state_message w) w"

subsection \<open>Loading a directory\<close>

definition startswith_dot :: "string \<Rightarrow> bool" where
  "startswith_dot entry = (entry \<noteq> [] \<and> hd entry = CHR ''.'')"

text \<open>The loop of \<^verbatim>\<open>load_directory\<close> over the sorted names: the rows it appends.\<close>

fun load_rows :: "filesys \<Rightarrow> path \<Rightarrow> string list \<Rightarrow> row list" where
  "load_rows fs p [] = []"
| "load_rows fs p (entry # entries) =
     (if startswith_dot entry then load_rows fs p entries
      else
        (let full_path = os_path_join p entry in
         (case os_stat fs full_path of
            Inl e \<Rightarrow> load_rows fs p entries
          | Inr st \<Rightarrow>
              (let is_dir = os_path_isdir fs full_path in
               \<lparr>row_icon = (if is_dir then FolderIcon else FileIcon),
                row_name = entry,
                row_size = (if is_dir then NoSize else FormatSize (st_size st)),
                row_path = full_path\<rparr> # load_rows fs p entries))))"

text \<open>
  \<^verbatim>\<open>file_store.clear()\<close> removes the rows and with them the selection of the view.
  The icons of the theme are taken to load.
\<close>

definition load_directory :: "path \<Rightarrow> world \<Rightarrow> world" where
  "load_directory p w =
     (if \<not> os_path_isdir (filesystem w) p then w
      else
        (let w1 = w\<lparr>current_path := p, path_entry := p, file_store := [], selected_row := None\<rparr>
         in (case os_listdir (filesystem w1) p of
               Inl e \<Rightarrow> w1\<lparr>stderr := stderr w1 @ [ErrorLoadingDirectory e]\<rparr>
             | Inr entries \<Rightarrow> w1\<lparr>file_store := load_rows (filesystem w1) p (sort entries)\<rparr>)))"

subsection \<open>Preview\<close>

definition image_extensions :: "string list" where
  "image_extensions = [''.jpg'', ''.jpeg'', ''.png'', ''.gif'', ''.bmp'']"

definition text_extensions :: "string list" where
  "text_extensions = [''.txt'', ''.md'', ''.py'', ''.rs'', ''.js'', ''.json'', ''.xml'', ''.html'']"

definition preview_image :: "path \<Rightarrow> widget" where
  "preview_image file_path = ImagePreview file_path"

definition preview_text :: "filesys \<Rightarrow> path \<Rightarrow> widget" where
  "preview_text fs file_path =
     (case read_text fs file_path 10000 of
        Inl e \<Rightarrow> LabelErrorText e
      | Inr content \<Rightarrow> TextView content)"

definition preview_file :: "path \<Rightarrow> world \<Rightarrow> world" where
  "preview_file file_path w =
     (let ext = lower (splitext_ext file_path) in
      w\<lparr>preview_box :=
           [if ext \<in> set image_extensions then preview_image file_path
            else if ext \<in> set text_extensions then preview_text (filesystem w) file_path
            else LabelNoPreview ext]\<rparr>)"

subsection \<open>Commands of the platform\<close>

definition handle_upload :: "(string \<times> json) list \<Rightarrow> world \<Rightarrow> world" where
  "handle_upload command w =
     (let filename = dict_get command ''filename'';
          data = dict_get command ''data''
      in if truthy filename \<and> truthy data then
           (case filename of
              JStr fname \<Rightarrow>
                (let filepath = os_path_join (current_path w) fname in
                 (case open_wb (filesystem w) filepath of
                    Inl e \<Rightarrow> send_message (Error e) w
                  | Inr (fs1, f) \<Rightarrow>
                      (case b64decode data of
                         Inl e \<Rightarrow> send_message (Error e) (w\<lparr>filesystem := fs1\<rparr>)
                       | Inr bytes \<Rightarrow>
                           send_message (UploadComplete fname)
                             (load_directory (current_path w)
                                (w\<lparr>filesystem := file_write fs1 f bytes\<rparr>)))))
            | _ \<Rightarrow> w\<lparr>stderr := stderr w @ [Traceback TypeError]\<rparr>)
         else w)"

definition handle_download_request :: "world \<Rightarrow> world" where
  "handle_download_request w =
     (case get_selected_file w of
        None \<Rightarrow> w
      | Some selected \<Rightarrow>
          if selected \<noteq> [] \<and> os_path_isfile (filesystem w) selected then
            (case read_rb (filesystem w) selected of
               Inl e \<Rightarrow> send_message (Error e) w
             | Inr content \<Rightarrow>
                 send_message (DownloadData (os_path_basename selected) (b2a_base64 content)) w)
          else w)"

definition handle_delete :: "world \<Rightarrow> world" where
  "handle_delete w =
     (case get_selected_file w of
        None \<Rightarrow> w
      | Some selected \<Rightarrow>
          if selected \<noteq> [] then
            (if os_path_isfile (filesystem w) selected then
               (case os_remove (filesystem w) selected of
                  Inl e \<Rightarrow> send_message (Error e) w
                | Inr fs1 \<Rightarrow>
                    send_message DeleteComplete
                      (load_directory (current_path w) (w\<lparr>filesystem := fs1\<rparr>)))
             else if os_path_isdir (filesystem w) selected then
               (case os_rmdir (filesystem w) selected of
                  Inl e \<Rightarrow> send_message (Error e) w
                | Inr fs1 \<Rightarrow>
                    send_message DeleteComplete
                      (load_directory (current_path w) (w\<lparr>filesystem := fs1\<rparr>)))
             else send_message DeleteComplete (load_directory (current_path w) w))
          else w)"

text \<open>
  \<^verbatim>\<open>handle_command\<close> runs in the main loop for every line that parsed as JSON. A
  value that is not an object has no \<^verbatim>\<open>get\<close>.
\<close>

definition handle_command :: "json \<Rightarrow> world \<Rightarrow> world" where
  "handle_command command w =
     (case command of
        JObj d \<Rightarrow>
          (let cmd_type = dict_get d ''type'' in
           if cmd_type = JStr ''upload'' then handle_upload d w
           else if cmd_type = JStr ''download_request'' then handle_download_request w
           else if cmd_type = JStr ''delete'' then handle_delete w
           else w)
      | _ \<Rightarrow> w\<lparr>stderr := stderr w @ [Traceback AttributeError]\<rparr>)"

subsection \<open>Gestures of the user\<close>

text \<open>
  The signal handlers. Each runs when the toolkit emits its signal: \<^verbatim>\<open>activate\<close> of
  the path entry with the text typed, \<^verbatim>\<open>clicked\<close> of the Up button,
  \<^verbatim>\<open>row-activated\<close> with the index of a row, and \<^verbatim>\<open>cursor-changed\<close> after the view
  has moved its selection.
\<close>

definition on_path_changed :: "string \<Rightarrow> world \<Rightarrow> world" where
  "on_path_changed typed w =
     (let w1 = w\<lparr>path_entry := typed\<rparr>; new_path = typed in
      if os_path_isdir (filesystem w1) new_path
      then send_state (load_directory new_path w1)
      else w1)"

definition on_up_clicked :: "world \<Rightarrow> world" where
  "on_up_clicked w =
     (let parent = os_path_dirname (current_path w) in
      if parent \<noteq> current_path w then send_state (load_directory parent w) else w)"

definition on_file_activated :: "nat \<Rightarrow> world \<Rightarrow> world" where
  "on_file_activated i w =
     (if i < length (file_store w) then
        (let file_path = row_path (file_store w ! i) in
         if os_path_isdir (filesystem w) file_path
         then send_state (load_directory file_path w)
         else preview_file file_path w)
      else w)"

definition on_selection_changed :: "world \<Rightarrow> world" where
  "on_selection_changed w =
     (let w1 = (case get_selected_file w of
                  None \<Rightarrow> w
                | Some selected \<Rightarrow>
                    if selected \<noteq> [] \<and> os_path_isfile (filesystem w) selected
                    then preview_file selected w
                    else w)
      in send_state w1)"

text \<open>
  The user moves the cursor of the view to a row, or away from every row; a row that
  is not in the store cannot be chosen.
\<close>

definition cursor_to :: "nat option \<Rightarrow> world \<Rightarrow> world" where
  "cursor_to sel w =
     (case sel of
        None \<Rightarrow> on_selection_changed (w\<lparr>selected_row := None\<rparr>)
      | Some i \<Rightarrow>
          if i < length (file_store w) then on_selection_changed (w\<lparr>selected_row := Some i\<rparr>)
          else w)"

text \<open>\<^verbatim>\<open>__init__\<close>, on a file system and with the home directory of the user.\<close>

definition init :: "filesys \<Rightarrow> path \<Rightarrow> world" where
  "init fs home =
     send_state
       (load_directory home
          \<lparr>filesystem = fs, current_path = home, path_entry = home, file_store = [],
           selected_row = None, preview_box = [LabelSelectFile], stdout = [], stderr = []\<rparr>)"

datatype event =
    Command json
  | PathActivated string
  | UpClicked
  | RowActivated nat
  | CursorChanged "nat option"

fun step :: "event \<Rightarrow> world \<Rightarrow> world" where
  "step (Command c) w = handle_command c w"
| "step (PathActivated typed) w = on_path_changed typed w"
| "step UpClicked w = on_up_clicked w"
| "step (RowActivated i) w = on_file_activated i w"
| "step (CursorChanged sel) w = cursor_to sel w"

section \<open>Notions used by the properties\<close>

text \<open>A path that names a directory with at least one entry.\<close>

definition nonempty_dir :: "filesys \<Rightarrow> path \<Rightarrow> bool" where
  "nonempty_dir fs p =
     (case os_stat fs p of Inr (Dir r w x ch) \<Rightarrow> ch \<noteq> [] | _ \<Rightarrow> False)"

text \<open>Whether \<^verbatim>\<open>os.stat\<close> returns rather than raises.\<close>

definition stat_ok :: "filesys \<Rightarrow> path \<Rightarrow> bool" where
  "stat_ok fs p = (case os_stat fs p of Inl e \<Rightarrow> False | Inr st \<Rightarrow> True)"






text \<open>Every directory of the first tree is a directory of the second, with its permissions.\<close>

definition dirs_kept :: "node \<Rightarrow> node \<Rightarrow> bool" where
  "dirs_kept rt rt' =
     (\<forall>m r w x ch. get_node rt m = Some (Dir r w x ch)
         \<longrightarrow> (\<exists>ch'. get_node rt' m = Some (Dir r w x ch')))"



definition delete_command :: json where
  "delete_command = JObj [(''type'', JStr ''delete'')]"

subsection \<open>An example\<close>

text \<open>
  The directory \<^verbatim>\<open>/tmp/x\<close> holds a file \<^verbatim>\<open>a.txt\<close> of five bytes, a directory \<^verbatim>\<open>b\<close>
  with one file, a hidden file, a symbolic link to itself, a socket and a directory
  that cannot be read. The explorer is started there; then a row is selected, or the
  two bytes \<^verbatim>\<open>hi\<close> are uploaded as \<^verbatim>\<open>n.txt\<close>.
\<close>

definition demo_fs :: filesys where
  "demo_fs = \<lparr>root = Dir True True True
      [(''tmp'', Dir True True True
         [(''x'', Dir True True True
            [(''b'', Dir True True True [(''c'', File True True [])]),
             (''a.txt'', File True True [104, 101, 108, 108, 111]),
             (''.hidden'', File True True []),
             (''loop'', SymLoop),
             (''sock'', Socket),
             (''locked'', Dir False True True [])])])],
    cwd = []\<rparr>"

definition demo_world :: world where
  "demo_world = init demo_fs ''/tmp/x''"

definition demo_file_selected :: world where
  "demo_file_selected = cursor_to (Some 0) demo_world"

definition demo_dir_selected :: world where
  "demo_dir_selected = cursor_to (Some 1) demo_world"

definition demo_socket_selected :: world where
  "demo_socket_selected = cursor_to (Some 3) demo_world"




section \<open>Lemmas\<close>

subsection \<open>What the operations leave unchanged\<close>

lemma send_message_simps:
  "filesystem (send_message m w) = filesystem w"
  "current_path (send_message m w) = current_path w"
  "path_entry (send_message m w) = path_entry w"
  "file_store (send_message m w) = file_store w"
  "selected_row (send_message m w) = selected_row w"
  "preview_box (send_message m w) = preview_box w"
  "stdout (send_message m w) = stdout w @ [m]"
  "stderr (send_message m w) = stderr w"
  by (simp_all add: send_message_def)

lemma get_selected_file_send_message:
  "get_selected_file (send_message m w) = get_selected_file w"
  by (simp add: get_selected_file_def send_message_def split: option.split)


lemma load_directory_keeps:
  "filesystem (load_directory p w) = filesystem w"
  "stdout (load_directory p w) = stdout w"
  "preview_box (load_directory p w) = preview_box w"
  by (simp_all add: load_directory_def Let_def split: sum.split)

lemma load_directory_not_dir:
  "\<not> os_path_isdir (filesystem w) p \<Longrightarrow> load_directory p w = w"
  by (simp add: load_directory_def)

lemma load_directory_selected_row:
  "os_path_isdir (filesystem w) p \<Longrightarrow> selected_row (load_directory p w) = None"
  by (simp add: load_directory_def Let_def split: sum.split)

lemma load_directory_current_path:
  "os_path_isdir (filesystem w) p \<Longrightarrow> current_path (load_directory p w) = p"
  by (simp add: load_directory_def Let_def split: sum.split)
lemma get_selected_file_send_state:
  "get_selected_file (send_state w) = get_selected_file w"
  by (simp add: send_state_def get_selected_file_send_message)

lemma current_path_send_state: "current_path (send_state w) = current_path w"
  by (simp add: send_state_def send_message_simps)

lemma get_selected_file_load_directory:
  "os_path_isdir (filesystem w) p \<Longrightarrow> get_selected_file (load_directory p w) = None"
  by (simp add: get_selected_file_def load_directory_selected_row)

lemma load_directory_moves:
  "current_path (load_directory p w) \<noteq> current_path w
     \<Longrightarrow> get_selected_file (load_directory p w) = None"
  by (cases "os_path_isdir (filesystem w) p")
     (simp_all add: get_selected_file_load_directory load_directory_not_dir)

lemma current_path_load_directory_same:
  "p = current_path w \<Longrightarrow> current_path (load_directory p w) = current_path w"
  by (cases "os_path_isdir (filesystem w) p")
     (simp_all add: load_directory_current_path load_directory_not_dir)

lemma current_path_preview_file: "current_path (preview_file p w) = current_path w"
  by (simp add: preview_file_def Let_def)
lemma current_path_handle_upload: "current_path (handle_upload d w) = current_path w"
  by (simp add: handle_upload_def Let_def send_message_simps current_path_load_directory_same
      split: json.split sum.split prod.split)

lemma current_path_handle_download_request:
  "current_path (handle_download_request w) = current_path w"
  by (simp add: handle_download_request_def send_message_simps split: option.split sum.split)

lemma current_path_handle_delete: "current_path (handle_delete w) = current_path w"
  by (simp add: handle_delete_def send_message_simps current_path_load_directory_same
      split: option.split sum.split)

lemma current_path_handle_command: "current_path (handle_command c w) = current_path w"
  by (simp add: handle_command_def Let_def current_path_handle_upload
      current_path_handle_download_request current_path_handle_delete split: json.split)

lemma current_path_on_selection_changed:
  "current_path (on_selection_changed w) = current_path w"
  by (simp add: on_selection_changed_def Let_def current_path_send_state current_path_preview_file
      split: option.split)

lemma current_path_cursor_to: "current_path (cursor_to sel w) = current_path w"
  by (simp add: cursor_to_def current_path_on_selection_changed split: option.split)

lemma step_moves:
  assumes moved: "current_path (step e w) \<noteq> current_path w"
  shows "get_selected_file (step e w) = None"
proof (cases e)
  case (Command c)
  with moved show ?thesis by (simp add: current_path_handle_command)
next
  case (PathActivated entry_text)
  show ?thesis
  proof (cases "os_path_isdir (filesystem w) entry_text")
    case True
    then show ?thesis using PathActivated
      by (simp add: on_path_changed_def Let_def get_selected_file_send_state
          get_selected_file_load_directory)
  next
    case False
    then show ?thesis using PathActivated moved
      by (simp add: on_path_changed_def Let_def)
  qed
next
  case UpClicked
  with moved show ?thesis
    by (auto simp: on_up_clicked_def Let_def get_selected_file_send_state current_path_send_state
        load_directory_moves split: if_splits)
next
  case (RowActivated i)
  with moved show ?thesis
    by (auto simp: on_file_activated_def Let_def get_selected_file_send_state
        current_path_send_state current_path_preview_file load_directory_moves split: if_splits)
next
  case (CursorChanged sel)
  with moved show ?thesis by (simp add: current_path_cursor_to)
qed



lemma handle_command_delete: "handle_command delete_command w = handle_delete w"
  by (simp add: handle_command_def delete_command_def dict_get_def)

subsection \<open>State reports\<close>












subsection \<open>The rows of a loaded directory\<close>

lemma load_rows_names:
  "map row_name (load_rows fs p ns)
     = filter (\<lambda>n. \<not> startswith_dot n \<and> stat_ok fs (os_path_join p n)) ns"
  by (induction ns) (auto simp: stat_ok_def Let_def split: sum.splits)


lemma sorted_filter_sort: "sorted (filter P (sort (ns :: string list)))"
  using sorted_filter [of "\<lambda>x. x" "sort ns" P] by simp


subsection \<open>Removing a directory\<close>

lemma nonempty_dir_rmdir:
  assumes "nonempty_dir fs p"
  shows "\<exists>e. os_rmdir fs p = Inl e"
  using assms
  by (auto simp: nonempty_dir_def os_stat_def os_rmdir_def
      split: sum.splits option.splits node.splits)

lemma nonempty_dir_isdir:
  "nonempty_dir fs p \<Longrightarrow> os_path_isdir fs p \<and> \<not> os_path_isfile fs p \<and> p \<noteq> []"
  by (auto simp: nonempty_dir_def os_path_isdir_def os_path_isfile_def os_stat_def resolve_def
      split: sum.splits option.splits node.splits if_splits)

subsection \<open>Paths\<close>










subsection \<open>Writing into the tree\<close>






lemma dirs_kept_trans: "dirs_kept a b \<Longrightarrow> dirs_kept b c \<Longrightarrow> dirs_kept a c"
  unfolding dirs_kept_def by blast





subsection \<open>base64 decodes what it encodes\<close>


































subsection \<open>Uploads and downloads\<close>



subsection \<open>The example text files\<close>






section \<open>The claims\<close>

subsection \<open>C1: upload, select, download\<close>




subsection \<open>C2: an upload command without a field\<close>

text \<open>
  Claim C2, amended. For every inbound upload command in which the \<^verbatim>\<open>filename\<close> field or
  the \<^verbatim>\<open>data\<close> field is absent, the handler does nothing: no message is emitted (no
  \<open>Error\<close> either), no file is written, and the state is what it was.
\<close>

theorem upload_absent_field_ignored:
  assumes "dict_get d ''type'' = JStr ''upload''"
    and "map_of d ''filename'' = None \<or> map_of d ''data'' = None"
  shows "handle_command (JObj d) w = w"
  using assms by (auto simp: handle_command_def handle_upload_def dict_get_def)

text \<open>
  The claim as stated asks for an \<open>Error\<close> message: at an upload command without
  \<^verbatim>\<open>filename\<close> the output stays the one state report of the start.
\<close>

theorem upload_absent_field_counterexample:
  "stdout (handle_command (JObj [(''type'', JStr ''upload''), (''data'', JStr ''aGk='')]) demo_world)
     = stdout demo_world
   \<and> stdout demo_world = [State ''/tmp/x'' None [''upload'']]"
  by code_simp

theorem upload_absent_field_ignored_witness:
  "handle_command (JObj [(''type'', JStr ''upload''), (''data'', JStr ''aGk='')]) demo_world = demo_world"
proof -
  have "dict_get [(''type'', JStr ''upload''), (''data'', JStr ''aGk='')] ''type'' = JStr ''upload''"
    by (simp add: dict_get_def)
  moreover have "map_of [(''type'', JStr ''upload''), (''data'', JStr ''aGk='')] ''filename'' = None
      \<or> map_of [(''type'', JStr ''upload''), (''data'', JStr ''aGk='')] ''data'' = None"
    by simp
  ultimately show ?thesis by (rule upload_absent_field_ignored)
qed

subsection \<open>C3: deleting a directory that is not empty\<close>

text \<open>
  Claim C3. For every delete command whose current selection is a non-empty directory
  the removal fails: \<^verbatim>\<open>os.rmdir\<close> raises, and the handler's only effect is to emit
  \<open>Error\<close> with that exception. The entries, the selection and the file system are
  unchanged, and no \<open>DeleteComplete\<close> is emitted.
\<close>

theorem delete_nonempty_directory:
  assumes "get_selected_file w = Some p" and "nonempty_dir (filesystem w) p"
  shows "\<exists>e. os_rmdir (filesystem w) p = Inl e
           \<and> handle_command delete_command w = w\<lparr>stdout := stdout w @ [Error e]\<rparr>"
proof -
  from assms(2) obtain e where e: "os_rmdir (filesystem w) p = Inl e"
    using nonempty_dir_rmdir by blast
  from assms(2) have "os_path_isdir (filesystem w) p" "\<not> os_path_isfile (filesystem w) p" "p \<noteq> []"
    using nonempty_dir_isdir by blast+
  with assms(1) e have "handle_delete w = w\<lparr>stdout := stdout w @ [Error e]\<rparr>"
    by (simp add: handle_delete_def send_message_def)
  with e show ?thesis by (simp add: handle_command_delete)
qed

theorem delete_nonempty_directory_witness:
  "\<exists>e. os_rmdir (filesystem demo_dir_selected) ''/tmp/x/b'' = Inl e
      \<and> handle_command delete_command demo_dir_selected
          = demo_dir_selected\<lparr>stdout := stdout demo_dir_selected @ [Error e]\<rparr>"
proof -
  have "get_selected_file demo_dir_selected = Some ''/tmp/x/b''"
    by code_simp
  moreover have "nonempty_dir (filesystem demo_dir_selected) ''/tmp/x/b''"
    by code_simp
  ultimately show ?thesis by (rule delete_nonempty_directory)
qed

subsection \<open>C4: the available actions\<close>

text \<open>
  Claim C4, amended. \<^verbatim>\<open>get_available_actions\<close> is a function of the selected path and
  of what the file system says of that path when it is called (a regular file, a
  directory, or neither): two calls with the same selection, on file systems that
  agree on these two tests, return the same actions, and \<^verbatim>\<open>upload\<close> is a member of
  every result.
\<close>

theorem available_actions_of_kind:
  assumes "case sel of None \<Rightarrow> True
           | Some p \<Rightarrow> os_path_isfile fs p = os_path_isfile fs' p
                      \<and> os_path_isdir fs p = os_path_isdir fs' p"
  shows "get_available_actions fs sel = get_available_actions fs' sel
         \<and> ''upload'' \<in> set (get_available_actions fs sel)"
  using assms by (cases sel) (auto simp: get_available_actions_def Let_def)

text \<open>
  The claim as stated, a function of the selection alone, fails: the same selected
  path gives three actions while the file exists and one on a file system without it.
\<close>

theorem available_actions_counterexample:
  "get_available_actions demo_fs (Some ''/tmp/x/a.txt'') = [''upload'', ''download'', ''delete'']
   \<and> get_available_actions (demo_fs\<lparr>root := Dir True True True []\<rparr>) (Some ''/tmp/x/a.txt'') = [''upload'']"
  by code_simp

theorem available_actions_of_kind_witness:
  "get_available_actions demo_fs (Some ''/tmp/x/a.txt'')
     = get_available_actions (demo_fs\<lparr>cwd := [''tmp'']\<rparr>) (Some ''/tmp/x/a.txt'')
   \<and> ''upload'' \<in> set (get_available_actions demo_fs (Some ''/tmp/x/a.txt''))"
proof -
  have "case Some ''/tmp/x/a.txt'' of None \<Rightarrow> True
        | Some p \<Rightarrow> os_path_isfile demo_fs p = os_path_isfile (demo_fs\<lparr>cwd := [''tmp'']\<rparr>) p
                   \<and> os_path_isdir demo_fs p = os_path_isdir (demo_fs\<lparr>cwd := [''tmp'']\<rparr>) p"
    by code_simp
  then show ?thesis by (rule available_actions_of_kind)
qed

subsection \<open>C5: the text preview\<close>




subsection \<open>C6: state reports\<close>




subsection \<open>C7: the entries of a loaded directory\<close>

text \<open>
  Claim C7. For every successful directory load (the path is a directory and its listing
  succeeds) the rows are sorted by name, no name starts with a dot, the names are
  exactly the listed names that are not hidden and on which \<^verbatim>\<open>os.stat\<close> succeeds, and
  nothing is written to either stream: a child whose \<^verbatim>\<open>stat\<close> fails is skipped
  silently.
\<close>

theorem load_directory_entries:
  assumes "os_path_isdir (filesystem w) p"
    and "os_listdir (filesystem w) p = Inr names"
  shows "sorted (map row_name (file_store (load_directory p w)))
         \<and> (\<forall>r \<in> set (file_store (load_directory p w)). \<not> startswith_dot (row_name r))
         \<and> map row_name (file_store (load_directory p w))
             = filter (\<lambda>n. \<not> startswith_dot n \<and> stat_ok (filesystem w) (os_path_join p n))
                 (sort names)
         \<and> stdout (load_directory p w) = stdout w
         \<and> stderr (load_directory p w) = stderr w"
proof -
  have store: "file_store (load_directory p w) = load_rows (filesystem w) p (sort names)"
    using assms by (simp add: load_directory_def)
  have names: "map row_name (file_store (load_directory p w))
      = filter (\<lambda>n. \<not> startswith_dot n \<and> stat_ok (filesystem w) (os_path_join p n)) (sort names)"
    by (simp add: store load_rows_names)
  have "sorted (map row_name (file_store (load_directory p w)))"
    unfolding names by (rule sorted_filter_sort)
  moreover have "\<forall>r \<in> set (file_store (load_directory p w)). \<not> startswith_dot (row_name r)"
  proof
    fix r assume "r \<in> set (file_store (load_directory p w))"
    then have "row_name r \<in> set (map row_name (file_store (load_directory p w)))" by simp
    then show "\<not> startswith_dot (row_name r)" unfolding names by simp
  qed
  moreover have "stderr (load_directory p w) = stderr w"
    using assms by (simp add: load_directory_def)
  ultimately show ?thesis using names by (simp add: load_directory_keeps)
qed

text \<open>
  At the example the hidden file and the link on which \<^verbatim>\<open>stat\<close> fails are left out.
\<close>

theorem load_directory_entries_witness:
  "sorted (map row_name (file_store (load_directory ''/tmp/x'' demo_world)))
   \<and> list_all (\<lambda>r. \<not> startswith_dot (row_name r)) (file_store (load_directory ''/tmp/x'' demo_world))
   \<and> map row_name (file_store (load_directory ''/tmp/x'' demo_world))
       = [''a.txt'', ''b'', ''locked'', ''sock'']
   \<and> \<not> stat_ok (filesystem demo_world) ''/tmp/x/loop''
   \<and> stderr (load_directory ''/tmp/x'' demo_world) = stderr demo_world"
proof -
  have d: "os_path_isdir (filesystem demo_world) ''/tmp/x''"
    by code_simp
  have l: "os_listdir (filesystem demo_world) ''/tmp/x''
      = Inr [''b'', ''a.txt'', ''.hidden'', ''loop'', ''sock'', ''locked'']"
    by code_simp
  have f: "filter (\<lambda>n. \<not> startswith_dot n \<and> stat_ok (filesystem demo_world) (os_path_join ''/tmp/x'' n))
             (sort [''b'', ''a.txt'', ''.hidden'', ''loop'', ''sock'', ''locked''])
           = [''a.txt'', ''b'', ''locked'', ''sock'']"
    by code_simp
  have s: "\<not> stat_ok (filesystem demo_world) ''/tmp/x/loop''"
    by code_simp
  from load_directory_entries [OF d l] f s show ?thesis
    by (simp add: list_all_iff)
qed

subsection \<open>C8: no dangling selection\<close>

text \<open>
  Claim C8. After every load of a valid directory the selected path is unset; so it is
  after every transition that changes the current path; and whenever a selected path
  is present it is the path of some row of the entries.
\<close>

theorem selection_cleared_by_load:
  "(os_path_isdir (filesystem w) p \<longrightarrow> get_selected_file (load_directory p w) = None)
   \<and> (current_path (step e w) \<noteq> current_path w \<longrightarrow> get_selected_file (step e w) = None)
   \<and> (\<forall>q. get_selected_file w = Some q \<longrightarrow> q \<in> row_path ` set (file_store w))"
proof -
  have "\<forall>q. get_selected_file w = Some q \<longrightarrow> q \<in> row_path ` set (file_store w)"
    by (auto simp: get_selected_file_def split: option.splits if_splits)
  then show ?thesis
    using get_selected_file_load_directory step_moves by blast
qed

theorem selection_cleared_by_load_witness:
  "os_path_isdir (filesystem demo_file_selected) ''/tmp/x/b''
   \<and> get_selected_file demo_file_selected = Some ''/tmp/x/a.txt''
   \<and> ''/tmp/x/a.txt'' \<in> row_path ` set (file_store demo_file_selected)
   \<and> get_selected_file (load_directory ''/tmp/x/b'' demo_file_selected) = None
   \<and> current_path (step (RowActivated 1) demo_file_selected) \<noteq> current_path demo_file_selected
   \<and> get_selected_file (step (RowActivated 1) demo_file_selected) = None"
proof -
  have d: "os_path_isdir (filesystem demo_file_selected) ''/tmp/x/b''"
    by code_simp
  have s: "get_selected_file demo_file_selected = Some ''/tmp/x/a.txt''"
    by code_simp
  have m: "current_path (step (RowActivated 1) demo_file_selected) \<noteq> current_path demo_file_selected"
    by code_simp
  from selection_cleared_by_load [of demo_file_selected "''/tmp/x/b''" "RowActivated 1"] d s m
  show ?thesis by blast
qed

subsection \<open>C9: deleting a stale selection\<close>

text \<open>
  Claim C9. If a delete command is handled while the selection (a non-empty path) names
  neither a regular file nor a directory, nothing is removed from the file system,
  the current directory is reloaded and \<open>DeleteComplete\<close> is emitted, not an \<open>Error\<close>.
\<close>

theorem delete_stale_selection:
  assumes "get_selected_file w = Some p" and "p \<noteq> []"
    and "\<not> os_path_isfile (filesystem w) p" and "\<not> os_path_isdir (filesystem w) p"
  shows "filesystem (handle_command delete_command w) = filesystem w
         \<and> stdout (handle_command delete_command w) = stdout w @ [DeleteComplete]
         \<and> handle_command delete_command w
             = send_message DeleteComplete (load_directory (current_path w) w)"
  using assms
  by (simp add: handle_command_delete handle_delete_def send_message_simps load_directory_keeps)

text \<open>At the example the selection is the socket.\<close>

theorem delete_stale_selection_witness:
  "filesystem (handle_command delete_command demo_socket_selected)
     = filesystem demo_socket_selected
   \<and> stdout (handle_command delete_command demo_socket_selected)
       = stdout demo_socket_selected @ [DeleteComplete]
   \<and> handle_command delete_command demo_socket_selected
       = send_message DeleteComplete
           (load_directory (current_path demo_socket_selected) demo_socket_selected)"
proof -
  have "get_selected_file demo_socket_selected = Some ''/tmp/x/sock''"
    by code_simp
  moreover have "''/tmp/x/sock'' \<noteq> []" by simp
  moreover have "\<not> os_path_isfile (filesystem demo_socket_selected) ''/tmp/x/sock''"
    by code_simp
  moreover have "\<not> os_path_isdir (filesystem demo_socket_selected) ''/tmp/x/sock''"
    by code_simp
  ultimately show ?thesis by (rule delete_stale_selection)
qed

subsection \<open>C10: a listing that fails\<close>

text \<open>
  Claim C10. If a path passes the directory test of \<^verbatim>\<open>load_directory\<close> and its listing
  then fails, the current path is the new path all the same, the entries are empty,
  the selection is unset, nothing is written to standard output, and the diagnostic
  goes to standard error.
\<close>

theorem load_directory_listing_fails:
  assumes "os_path_isdir (filesystem w) p"
    and "os_listdir (filesystem w) p = Inl e"
  shows "current_path (load_directory p w) = p
         \<and> file_store (load_directory p w) = []
         \<and> get_selected_file (load_directory p w) = None
         \<and> stdout (load_directory p w) = stdout w
         \<and> stderr (load_directory p w) = stderr w @ [ErrorLoadingDirectory e]"
  using assms by (simp add: load_directory_def get_selected_file_def)

text \<open>At the example the directory \<^verbatim>\<open>locked\<close> cannot be read.\<close>

theorem load_directory_listing_fails_witness:
  "current_path (load_directory ''/tmp/x/locked'' demo_world) = ''/tmp/x/locked''
   \<and> file_store (load_directory ''/tmp/x/locked'' demo_world) = []
   \<and> get_selected_file (load_directory ''/tmp/x/locked'' demo_world) = None
   \<and> stdout (load_directory ''/tmp/x/locked'' demo_world) = stdout demo_world
   \<and> stderr (load_directory ''/tmp/x/locked'' demo_world)
       = stderr demo_world @ [ErrorLoadingDirectory (OSError EACCES ''/tmp/x/locked'')]"
proof -
  have "os_path_isdir (filesystem demo_world) ''/tmp/x/locked''"
    by code_simp
  moreover have "os_listdir (filesystem demo_world) ''/tmp/x/locked''
      = Inl (OSError EACCES ''/tmp/x/locked'')"
    by code_simp
  ultimately show ?thesis by (rule load_directory_listing_fails)
qed

end
